theory Spec2Isabelle
  imports Main "HOL-Library.Char_ord" "HOL-Library.List_Lexorder" "HOL-Library.Sublist"
begin

section \<open>JavaScript values and array built-ins\<close>

text \<open>
  A JavaScript string is modelled as a \<^typ>\<open>string\<close>: a list of bytes, the UTF-8
  encoding of the text. All literals of the sources are ASCII except the em dash of the
  instruction blocks, which is written as its three bytes. Strict equality of strings is
  equality of the lists. JavaScript compares strings by their UTF-16 code units; the
  function \<open>utf16_units\<close> below gives the code units of a string, and the default order of
  \<open>Array.prototype.sort\<close> is the lexicographic order of these lists.
  \<open>undefined\<close> is \<^const>\<open>None\<close>.
\<close>

abbreviation nl :: string where
  "nl \<equiv> [CHR 0x0A]"

abbreviation emdash :: string where
  "emdash \<equiv> [CHR 0xE2, CHR 0x80, CHR 0x94]"

text \<open>\<open>xs.join(sep)\<close> on an array of strings.\<close>

fun join :: "string \<Rightarrow> string list \<Rightarrow> string" where
  "join sep [] = []"
| "join sep [x] = x"
| "join sep (x # y # ys) = x @ sep @ join sep (y # ys)"

text \<open>\<open>xs.find(p)\<close>: the first element that satisfies \<open>p\<close>, or \<open>undefined\<close>.\<close>

fun find_js :: "('a \<Rightarrow> bool) \<Rightarrow> 'a list \<Rightarrow> 'a option" where
  "find_js p [] = None"
| "find_js p (x # xs) = (if p x then Some x else find_js p xs)"

text \<open>\<open>xs.filter(p)\<close>: a new array of the elements that satisfy \<open>p\<close>, visited in index order.\<close>

fun filter_js :: "('a \<Rightarrow> bool) \<Rightarrow> 'a list \<Rightarrow> 'a list" where
  "filter_js p [] = []"
| "filter_js p (x # xs) = (if p x then x # filter_js p xs else filter_js p xs)"

text \<open>\<open>xs.flatMap(f)\<close> for a callback that returns arrays.\<close>

fun flatMap :: "('a \<Rightarrow> 'b list) \<Rightarrow> 'a list \<Rightarrow> 'b list" where
  "flatMap f [] = []"
| "flatMap f (x # xs) = f x @ flatMap f xs"

text \<open>
  \<open>new Set(xs)\<close> adds the elements of \<open>xs\<close> one by one; an element already present is
  skipped, and a set iterates in insertion order. A set is modelled by the list of its
  elements in that order, so the spread \<open>[...set]\<close> is the list itself.
\<close>

definition Set_add :: "'a list \<Rightarrow> 'a \<Rightarrow> 'a list" where
  "Set_add s x = (if x \<in> set s then s else s @ [x])"

definition new_Set :: "'a list \<Rightarrow> 'a list" where
  "new_Set xs = foldl Set_add [] xs"

text \<open>
  The UTF-16 code units of a string. A code point below \<open>0x10000\<close> is one unit, a code
  point from \<open>0x10000\<close> on is a pair of surrogates; the code points are decoded from the
  one to four bytes of their UTF-8 encoding. (A byte that starts no complete sequence is
  taken as a unit of its own; the encoding of a JavaScript string has no such byte.)
\<close>

definition units_of :: "nat \<Rightarrow> nat list" where
  "units_of cp =
     (if cp < 0x10000 then [cp]
      else [0xD800 + (cp - 0x10000) div 0x400, 0xDC00 + (cp - 0x10000) mod 0x400])"

definition cont :: "char \<Rightarrow> nat" where
  "cont b = of_char b - 0x80"

definition lead2 :: "char \<Rightarrow> bool" where
  "lead2 a = (0xC0 \<le> (of_char a :: nat) \<and> (of_char a :: nat) < 0xE0)"

definition lead3 :: "char \<Rightarrow> bool" where
  "lead3 a = (0xE0 \<le> (of_char a :: nat) \<and> (of_char a :: nat) < 0xF0)"

definition lead4 :: "char \<Rightarrow> bool" where
  "lead4 a = (0xF0 \<le> (of_char a :: nat))"

definition cp2 :: "char \<Rightarrow> char \<Rightarrow> nat" where
  "cp2 a b = (of_char a - 0xC0) * 0x40 + cont b"

definition cp3 :: "char \<Rightarrow> char \<Rightarrow> char \<Rightarrow> nat" where
  "cp3 a b c = (of_char a - 0xE0) * 0x1000 + cont b * 0x40 + cont c"

definition cp4 :: "char \<Rightarrow> char \<Rightarrow> char \<Rightarrow> char \<Rightarrow> nat" where
  "cp4 a b c d = (of_char a - 0xF0) * 0x40000 + cont b * 0x1000 + cont c * 0x40 + cont d"

fun utf16_units :: "string \<Rightarrow> nat list" where
  "utf16_units (a # b # c # d # r) =
     (if lead4 a then units_of (cp4 a b c d) @ utf16_units r
      else if lead3 a then units_of (cp3 a b c) @ utf16_units (d # r)
      else if lead2 a then units_of (cp2 a b) @ utf16_units (c # d # r)
      else of_char a # utf16_units (b # c # d # r))"
| "utf16_units [a, b, c] =
     (if lead3 a then units_of (cp3 a b c)
      else if lead2 a then units_of (cp2 a b) @ utf16_units [c]
      else of_char a # utf16_units [b, c])"
| "utf16_units [a, b] =
     (if lead2 a then units_of (cp2 a b) else of_char a # utf16_units [b])"
| "utf16_units [a] = [of_char a]"
| "utf16_units [] = []"

text \<open>
  \<open>xs.sort()\<close> with no comparator, on an array of strings: a stable sort that puts \<open>x\<close>
  before \<open>y\<close> when the code units of \<open>x\<close> are lexicographically less than those of \<open>y\<close>.
\<close>

definition sort_js :: "string list \<Rightarrow> string list" where
  "sort_js xs = sort_key utf16_units xs"

text \<open>
  \<open>Object.entries(o)\<close> for an object \<open>o\<close> with string values, given as the list of its
  properties in the order in which they were created (no key twice). The keys that are
  array indices, the canonical decimal numerals of the integers from \<open>0\<close> to \<open>2^32 - 2\<close>,
  come first in ascending numeric order, the other keys follow in creation order.
\<close>

definition digit_index :: "char \<Rightarrow> nat" where
  "digit_index c = length (takeWhile (\<lambda>d. d \<noteq> c) ''0123456789'')"

definition decimal_value :: "string \<Rightarrow> nat" where
  "decimal_value k = foldl (\<lambda>n c. 10 * n + digit_index c) 0 k"

definition is_array_index :: "string \<Rightarrow> bool" where
  "is_array_index k =
     (k \<noteq> [] \<and> list_all (\<lambda>c. c \<in> set ''0123456789'') k \<and>
      (if hd k = CHR ''0'' then k = ''0'' else True) \<and>
      decimal_value k < 4294967295)"

definition Object_entries :: "(string \<times> string) list \<Rightarrow> (string \<times> string) list" where
  "Object_entries o' =
     sort_key (\<lambda>(k, v). decimal_value k) (filter (\<lambda>(k, v). is_array_index k) o') @
     filter (\<lambda>(k, v). \<not> is_array_index k) o'"

text \<open>
  \<open>s.toLowerCase()\<close>, on the ASCII letters only (bytes beyond ASCII are left as they are,
  where JavaScript applies the Unicode case mapping). No claim below depends on it.
\<close>

definition toLowerCase :: "string \<Rightarrow> string" where
  "toLowerCase s =
     map (\<lambda>c. case map_of (zip ''ABCDEFGHIJKLMNOPQRSTUVWXYZ'' ''abcdefghijklmnopqrstuvwxyz'') c of
                Some l \<Rightarrow> l
              | None \<Rightarrow> c) s"

text \<open>The decimal text of a non-negative integer, as a template literal renders \<open>${i + 1}\<close>.\<close>

fun string_of_nat :: "nat \<Rightarrow> string" where
  "string_of_nat n =
     (if n < 10 then [''0123456789'' ! n]
      else string_of_nat (n div 10) @ [''0123456789'' ! (n mod 10)])"

declare string_of_nat.simps [simp del]

section \<open>Data model\<close>

text \<open>
  The types of \<open>src/data/types.ts\<close> (\<open>SystemDesign\<close>, \<open>Category\<close>) and of the types
  module of the guides (\<open>FeatureGuide\<close>, \<open>GuideCategory\<close>; \<open>unnamed/part_007\<close>, second
  part).

  The repository holds two revisions of \<open>src/data/types.ts\<close>. In the one under that name
  the union type \<open>Category\<close> has the seven members \<open>messaging\<close> to \<open>infra\<close>; it goes with
  the index of six records (\<open>unnamed/part_002\<close>). In the later one (\<open>unnamed/part_013\<close>)
  and in \<open>src/lib/categories.ts\<close> the type has eleven members; it goes with the index of
  seventeen records (\<open>src/data/index.ts\<close>), whose records use \<open>video\<close>, \<open>devtools\<close>,
  \<open>ai\<close> and \<open>productivity\<close>. The type is modelled with the eleven members. A field name that two records share is written with
  the name of its record, as in \<open>SystemDesign.name\<close>; the member \<open>data\<close> of
  \<open>GuideCategory\<close> is written \<open>GuideCategory.data\<close>.
\<close>

datatype Category =
  messaging | social | streaming | transport | search | commerce | infra
  | video | devtools | ai | productivity

datatype GuideCategory =
  real_time | platform | data | reliability | security | media | collaboration

record Requirements =
  functional :: "string list"
  nonFunctional :: "string list"

record Component =
  name :: string
  description :: string

record DeepDive =
  title :: string
  content :: string
  diagram :: "string option"

record Tradeoff =
  decision :: string
  pros :: "string list"
  cons :: "string list"

text \<open>
  \<open>scale\<close> is a \<open>Record<string, string>\<close>; it is held as the list of its properties in
  the order in which they were created.
\<close>

record SystemDesign =
  slug :: string
  name :: string
  tagline :: string
  category :: Category
  tags :: "string list"
  overview :: string
  scale :: "(string \<times> string) list"
  requirements :: Requirements
  highLevelDiagram :: string
  components :: "Component list"
  dataModel :: string
  deepDive :: "DeepDive list"
  tradeoffs :: "Tradeoff list"

record Approach =
  name :: string
  description :: string
  pros :: "string list"
  cons :: "string list"

record RealWorldExample =
  system :: string
  approach :: string

record FeatureGuide =
  slug :: string
  title :: string
  tagline :: string
  category :: GuideCategory
  tags :: "string list"
  problem :: string
  approaches :: "Approach list"
  architectureDiagram :: string
  components :: "Component list"
  dataModel :: string
  deepDive :: "DeepDive list"
  realWorldExamples :: "RealWorldExample list"
  tradeoffs :: "Tradeoff list"

text \<open>The content-collection entries that the two \<open>FromMdx\<close> generators take.\<close>

record SystemData =
  name :: string
  tagline :: string

record SystemEntry =
  data :: SystemData
  body :: "string option"

record GuideData =
  title :: string
  tagline :: string

record GuideEntry =
  data :: GuideData
  body :: "string option"

section \<open>Category configuration\<close>

text \<open>
  The two tables of \<open>src/data/types.ts\<close> in the revision that goes with the roster of
  seventeen records (\<open>unnamed/part_013\<close>, lines 19 to 33); \<open>src/lib/categories.ts\<close>, lines
  3 to 17, has the same two tables. An object literal is a finite map; a key it does not
  have reads as \<open>undefined\<close>.
\<close>

definition categoryLabels :: "Category \<rightharpoonup> string" where
  "categoryLabels = map_of
     [(messaging, ''Messaging''), (social, ''Social Media''), (streaming, ''Streaming''),
      (transport, ''Transportation''), (search, ''Search & Discovery''),
      (commerce, ''E-Commerce''), (infra, ''Infrastructure''),
      (video, ''Video & Conferencing''), (devtools, ''Developer Tools''),
      (ai, ''AI & ML''), (productivity, ''Productivity'')]"

definition categoryColors :: "Category \<rightharpoonup> string" where
  "categoryColors = map_of
     [(messaging, ''bg-cat-messaging''), (social, ''bg-cat-social''), (streaming, ''bg-cat-streaming''),
      (transport, ''bg-cat-transport''), (search, ''bg-cat-search''),
      (commerce, ''bg-cat-commerce''), (infra, ''bg-cat-infra''),
      (video, ''bg-cat-video''), (devtools, ''bg-cat-devtools''),
      (ai, ''bg-cat-ai''), (productivity, ''bg-cat-productivity'')]"

text \<open>
  The slug and category (lines 4 and 7) of the records of the roster of
  \<open>src/data/index.ts\<close> whose modules are in the repository, in roster order. (The modules
  of Slack, Google Meet, Google Photos and Gmail are not; their records have the type
  \<open>SystemDesign\<close>, so their category is a member of \<open>Category\<close>.)
\<close>

definition roster_categories :: "(string \<times> Category) list" where
  "roster_categories =
     [(''whatsapp'', messaging), (''instagram'', social), (''telegram'', messaging),
      (''netflix'', streaming), (''uber'', transport), (''twitter'', social),
      (''discord'', messaging), (''zoom'', video), (''github'', devtools),
      (''chatgpt'', ai), (''google-maps'', search), (''google-drive'', productivity),
      (''youtube'', streaming)]"

text \<open>
  The earlier revision: the two tables of \<open>src/data/types.ts\<close>, lines 19 to 29, with the
  seven entries of its type \<open>Category\<close>, and the roster of six records of the index that
  goes with it (\<open>unnamed/part_002\<close>, lines 12 to 19).
\<close>

definition categoryLabels_7 :: "Category \<rightharpoonup> string" where
  "categoryLabels_7 = map_of
     [(messaging, ''Messaging''), (social, ''Social Media''), (streaming, ''Streaming''),
      (transport, ''Transportation''), (search, ''Search & Discovery''),
      (commerce, ''E-Commerce''), (infra, ''Infrastructure'')]"

definition categoryColors_7 :: "Category \<rightharpoonup> string" where
  "categoryColors_7 = map_of
     [(messaging, ''bg-cat-messaging''), (social, ''bg-cat-social''), (streaming, ''bg-cat-streaming''),
      (transport, ''bg-cat-transport''), (search, ''bg-cat-search''),
      (commerce, ''bg-cat-commerce''), (infra, ''bg-cat-infra'')]"

definition roster_categories_6 :: "(string \<times> Category) list" where
  "roster_categories_6 =
     [(''whatsapp'', messaging), (''instagram'', social), (''telegram'', messaging),
      (''netflix'', streaming), (''uber'', transport), (''twitter'', social)]"

section \<open>Aggregation index (\<open>src/data/index.ts\<close>; for the guides \<open>unnamed/part_005\<close>)\<close>

text \<open>
  The rosters \<open>systems\<close> and \<open>guides\<close> are module constants built from the imported
  records; the functions take them as their first argument. A parameter whose name is
  also a field name carries a prime.
\<close>

definition getSystemBySlug :: "SystemDesign list \<Rightarrow> string \<Rightarrow> SystemDesign option" where
  "getSystemBySlug systems slug' = find_js (\<lambda>s. SystemDesign.slug s = slug') systems"

definition getSystemsByCategory :: "SystemDesign list \<Rightarrow> Category \<Rightarrow> SystemDesign list" where
  "getSystemsByCategory systems category' =
     filter_js (\<lambda>s. SystemDesign.category s = category') systems"

definition getAllCategories :: "SystemDesign list \<Rightarrow> Category list" where
  "getAllCategories systems = new_Set (map (\<lambda>s. SystemDesign.category s) systems)"

definition getAllTags :: "SystemDesign list \<Rightarrow> string list" where
  "getAllTags systems = sort_js (new_Set (flatMap (\<lambda>s. SystemDesign.tags s) systems))"

definition getGuideBySlug :: "FeatureGuide list \<Rightarrow> string \<Rightarrow> FeatureGuide option" where
  "getGuideBySlug guides slug' = find_js (\<lambda>g. FeatureGuide.slug g = slug') guides"

definition getGuidesByCategory :: "FeatureGuide list \<Rightarrow> GuideCategory \<Rightarrow> FeatureGuide list" where
  "getGuidesByCategory guides category' =
     filter_js (\<lambda>g. FeatureGuide.category g = category') guides"

definition getAllGuideCategories :: "FeatureGuide list \<Rightarrow> GuideCategory list" where
  "getAllGuideCategories guides = new_Set (map (\<lambda>g. FeatureGuide.category g) guides)"

definition getAllGuideTags :: "FeatureGuide list \<Rightarrow> string list" where
  "getAllGuideTags guides = sort_js (new_Set (flatMap (\<lambda>g. FeatureGuide.tags g) guides))"

section \<open>Accent colour of the system preview image (\<open>src/pages/og/[slug].png.ts\<close>)\<close>

text \<open>
  Lines 32 to 42 of \<open>GET\<close>: the local table and \<open>categoryColor[system.category] ?? '#6b4c3b'\<close>.
  The result is the background of the accent bar and of the category badge.
\<close>

definition categoryColor :: "Category \<rightharpoonup> string" where
  "categoryColor = map_of
     [(messaging, ''#2d6a4f''), (social, ''#7b2d8b''), (streaming, ''#c2185b''),
      (transport, ''#1565c0''), (search, ''#e65100''), (commerce, ''#4e342e''),
      (infra, ''#37474f'')]"

definition color :: "Category \<Rightarrow> string" where
  "color category' = (case categoryColor category' of Some c \<Rightarrow> c | None \<Rightarrow> ''#6b4c3b'')"

section \<open>Prompt generator\<close>

text \<open>
  The module is in the repository in two revisions: \<open>src/lib/prompt-generator.ts\<close>, which
  holds \<open>generateBuildPrompt\<close> alone, and the later \<open>unnamed/part_001\<close> with the two
  \<open>FromMdx\<close> generators and the two legacy ones. The four functions of the later revision
  come first.

  Each template literal is transcribed line by line: one line of the source is one line
  of the definition, an interpolation \<open>${e}\<close> is the string \<open>e\<close>, and every line break
  of the literal is \<open>nl\<close>. A local constant whose name is also a field name carries a
  prime.
\<close>

text \<open>
  \<open>generateBuildPromptFromMdx\<close> (lines 21 to 50); \<open>entry.body ?? ''\<close> is the case on the
  optional body.
\<close>

definition generateBuildPromptFromMdx :: "SystemEntry \<Rightarrow> string" where
  "generateBuildPromptFromMdx entry =
    (let name' = SystemData.name (SystemEntry.data entry);
         tagline' = SystemData.tagline (SystemEntry.data entry);
         body' = (case SystemEntry.body entry of Some b \<Rightarrow> b | None \<Rightarrow> '''')
     in
       ''# Build a '' @ name' @ ''-like System'' @ nl @
       nl @
       ''You are an expert software architect. I want to build a production-grade application inspired by '' @ name' @ '' ('' @ tagline' @ '').'' @ nl @
       nl @
       ''Use the following system design reference to guide the architecture, tech choices, and implementation. Adapt it to my specific needs while preserving the key architectural patterns that make this system work at scale.'' @ nl @
       nl @
       ''---'' @ nl @
       nl @
       ''## System Design Reference'' @ nl @
       body' @ nl @
       nl @
       ''---'' @ nl @
       nl @
       ''## Instructions'' @ nl @
       nl @
       ''Based on the architecture above, please:'' @ nl @
       nl @
       ''1. **Choose a modern tech stack** appropriate for my team size and scale targets. Justify each choice.'' @ nl @
       ''2. **Design the database schema** with proper indexes, partitioning strategy, and replication approach.'' @ nl @
       ''3. **Implement the core services** starting with the most critical path (e.g., message delivery for messaging, feed generation for social).'' @ nl @
       ''4. **Set up the infrastructure** with containerization, CI/CD, monitoring, and observability.'' @ nl @
       ''5. **Plan for scale** '' @ emdash @ '' identify the components that will need horizontal scaling first and design them to be stateless where possible.'' @ nl @
       nl @
       ''Start by asking me clarifying questions about my specific requirements, team size, budget, and timeline. Then produce a phased implementation plan.'' @ nl)"

text \<open>\<open>generateGuidePromptFromMdx\<close> (lines 52 to 80).\<close>

definition generateGuidePromptFromMdx :: "GuideEntry \<Rightarrow> string" where
  "generateGuidePromptFromMdx entry =
    (let title' = GuideData.title (GuideEntry.data entry);
         tagline' = GuideData.tagline (GuideEntry.data entry);
         body' = (case GuideEntry.body entry of Some b \<Rightarrow> b | None \<Rightarrow> '''')
     in
       ''# How to Build: '' @ title' @ nl @
       nl @
       ''You are an expert software architect. I want to implement '' @ toLowerCase title' @ '' in my application. ('' @ tagline' @ '').'' @ nl @
       nl @
       ''Use the following architectural guide to inform the design. Adapt it to my specific needs while preserving the key patterns.'' @ nl @
       nl @
       ''---'' @ nl @
       nl @
       body' @ nl @
       nl @
       ''---'' @ nl @
       nl @
       ''## Instructions'' @ nl @
       nl @
       ''Based on the architecture above, please:'' @ nl @
       nl @
       ''1. **Recommend an approach** best suited for my scale, team, and constraints. Justify the choice.'' @ nl @
       ''2. **Design the data model** with proper indexes, partitioning, and storage strategy.'' @ nl @
       ''3. **Implement the core logic** with production-ready error handling and edge cases.'' @ nl @
       ''4. **Plan for scale** '' @ emdash @ '' identify bottlenecks and design for horizontal scaling.'' @ nl @
       ''5. **Add observability** '' @ emdash @ '' logging, metrics, and alerting for this feature.'' @ nl @
       nl @
       ''Start by asking me clarifying questions about my specific requirements, existing tech stack, and scale targets. Then produce a phased implementation plan.'' @ nl)"

text \<open>The legacy \<open>generateBuildPrompt\<close> (\<open>unnamed/part_001\<close>, lines 82 to 158).\<close>

definition generateBuildPrompt :: "SystemDesign \<Rightarrow> string" where
  "generateBuildPrompt system' =
    (let scaleLines = join nl (map (\<lambda>(k, v). ''- '' @ k @ '': '' @ v) (Object_entries (scale system')));
         funcReqs = join nl (map (\<lambda>r. ''- '' @ r) (functional (requirements system')));
         nonFuncReqs = join nl (map (\<lambda>r. ''- '' @ r) (nonFunctional (requirements system')));
         components' = join (nl @ nl) (map (\<lambda>c. ''### '' @ Component.name c @ nl @ Component.description c) (SystemDesign.components system'));
         deepDives = join (nl @ nl) (map (\<lambda>d. ''### '' @ DeepDive.title d @ nl @ content d) (SystemDesign.deepDive system'));
         tradeoffs' = join (nl @ nl)
           (map (\<lambda>t. ''### '' @ decision t @ nl @ ''**Pros:** '' @ join ''; '' (Tradeoff.pros t) @ nl @
                        ''**Cons:** '' @ join ''; '' (Tradeoff.cons t))
              (SystemDesign.tradeoffs system'))
     in
       ''# Build a '' @ SystemDesign.name system' @ ''-like System'' @ nl @
       nl @
       ''You are an expert software architect. I want to build a production-grade application inspired by '' @ SystemDesign.name system' @ '' ('' @ SystemDesign.tagline system' @ '').'' @ nl @
       nl @
       ''Use the following system design reference to guide the architecture, tech choices, and implementation. Adapt it to my specific needs while preserving the key architectural patterns that make this system work at scale.'' @ nl @
       nl @
       ''---'' @ nl @
       nl @
       ''## Overview'' @ nl @
       overview system' @ nl @
       nl @
       ''## Target Scale'' @ nl @
       scaleLines @ nl @
       nl @
       ''## Functional Requirements'' @ nl @
       funcReqs @ nl @
       nl @
       ''## Non-Functional Requirements'' @ nl @
       nonFuncReqs @ nl @
       nl @
       ''## Architecture Components'' @ nl @
       components' @ nl @
       nl @
       ''## Data Model (Mermaid ER Diagram)'' @ nl @
       ''```mermaid'' @ nl @
       SystemDesign.dataModel system' @ nl @
       ''```'' @ nl @
       nl @
       ''## Key Architectural Deep Dives'' @ nl @
       deepDives @ nl @
       nl @
       ''## Tradeoffs to Consider'' @ nl @
       tradeoffs' @ nl @
       nl @
       ''---'' @ nl @
       nl @
       ''## Instructions'' @ nl @
       nl @
       ''Based on the architecture above, please:'' @ nl @
       nl @
       ''1. **Choose a modern tech stack** appropriate for my team size and scale targets. Justify each choice.'' @ nl @
       ''2. **Design the database schema** with proper indexes, partitioning strategy, and replication approach.'' @ nl @
       ''3. **Implement the core services** starting with the most critical path (e.g., message delivery for messaging, feed generation for social).'' @ nl @
       ''4. **Set up the infrastructure** with containerization, CI/CD, monitoring, and observability.'' @ nl @
       ''5. **Plan for scale** '' @ emdash @ '' identify the components that will need horizontal scaling first and design them to be stateless where possible.'' @ nl @
       nl @
       ''Start by asking me clarifying questions about my specific requirements, team size, budget, and timeline. Then produce a phased implementation plan.'' @ nl)"

text \<open>
  \<open>generateBuildPrompt\<close> of the earlier revision (\<open>src/lib/prompt-generator.ts\<close>, lines 3
  to 79). Its text is the same up to directive 5, where the file has the eight bytes
  \<open>C3 A2 E2 82 AC E2 80 9D\<close> in the place of the em dash.
\<close>

definition lib_generateBuildPrompt :: "SystemDesign \<Rightarrow> string" where
  "lib_generateBuildPrompt system' =
    (let scaleLines = join nl (map (\<lambda>(k, v). ''- '' @ k @ '': '' @ v) (Object_entries (scale system')));
         funcReqs = join nl (map (\<lambda>r. ''- '' @ r) (functional (requirements system')));
         nonFuncReqs = join nl (map (\<lambda>r. ''- '' @ r) (nonFunctional (requirements system')));
         components' = join (nl @ nl) (map (\<lambda>c. ''### '' @ Component.name c @ nl @ Component.description c) (SystemDesign.components system'));
         deepDives = join (nl @ nl) (map (\<lambda>d. ''### '' @ DeepDive.title d @ nl @ content d) (SystemDesign.deepDive system'));
         tradeoffs' = join (nl @ nl)
           (map (\<lambda>t. ''### '' @ decision t @ nl @ ''**Pros:** '' @ join ''; '' (Tradeoff.pros t) @ nl @
                        ''**Cons:** '' @ join ''; '' (Tradeoff.cons t))
              (SystemDesign.tradeoffs system'))
     in
       ''# Build a '' @ SystemDesign.name system' @ ''-like System'' @ nl @
       nl @
       ''You are an expert software architect. I want to build a production-grade application inspired by '' @ SystemDesign.name system' @ '' ('' @ SystemDesign.tagline system' @ '').'' @ nl @
       nl @
       ''Use the following system design reference to guide the architecture, tech choices, and implementation. Adapt it to my specific needs while preserving the key architectural patterns that make this system work at scale.'' @ nl @
       nl @
       ''---'' @ nl @
       nl @
       ''## Overview'' @ nl @
       overview system' @ nl @
       nl @
       ''## Target Scale'' @ nl @
       scaleLines @ nl @
       nl @
       ''## Functional Requirements'' @ nl @
       funcReqs @ nl @
       nl @
       ''## Non-Functional Requirements'' @ nl @
       nonFuncReqs @ nl @
       nl @
       ''## Architecture Components'' @ nl @
       components' @ nl @
       nl @
       ''## Data Model (Mermaid ER Diagram)'' @ nl @
       ''```mermaid'' @ nl @
       SystemDesign.dataModel system' @ nl @
       ''```'' @ nl @
       nl @
       ''## Key Architectural Deep Dives'' @ nl @
       deepDives @ nl @
       nl @
       ''## Tradeoffs to Consider'' @ nl @
       tradeoffs' @ nl @
       nl @
       ''---'' @ nl @
       nl @
       ''## Instructions'' @ nl @
       nl @
       ''Based on the architecture above, please:'' @ nl @
       nl @
       ''1. **Choose a modern tech stack** appropriate for my team size and scale targets. Justify each choice.'' @ nl @
       ''2. **Design the database schema** with proper indexes, partitioning strategy, and replication approach.'' @ nl @
       ''3. **Implement the core services** starting with the most critical path (e.g., message delivery for messaging, feed generation for social).'' @ nl @
       ''4. **Set up the infrastructure** with containerization, CI/CD, monitoring, and observability.'' @ nl @
       ''5. **Plan for scale** '' @ [CHR 0xC3, CHR 0xA2] @ [CHR 0xE2, CHR 0x82, CHR 0xAC] @ [CHR 0xE2, CHR 0x80, CHR 0x9D] @ '' identify the components that will need horizontal scaling first and design them to be stateless where possible.'' @ nl @
       nl @
       ''Start by asking me clarifying questions about my specific requirements, team size, budget, and timeline. Then produce a phased implementation plan.'' @ nl)"

text \<open>
  The legacy \<open>generateGuidePrompt\<close> (lines 160 to 232). The callback of \<open>approaches.map\<close>
  takes the element and its index.
\<close>

definition generateGuidePrompt :: "FeatureGuide \<Rightarrow> string" where
  "generateGuidePrompt guide =
    (let approaches' = join (nl @ nl)
           (map (\<lambda>(a, i). ''### Approach '' @ string_of_nat (i + 1) @ '': '' @ Approach.name a @ nl @
                        Approach.description a @ nl @
                        ''**Pros:** '' @ join ''; '' (Approach.pros a) @ nl @
                        ''**Cons:** '' @ join ''; '' (Approach.cons a))
              (zip (approaches guide) [0 ..< length (approaches guide)]));
         components' = join (nl @ nl) (map (\<lambda>c. ''### '' @ Component.name c @ nl @ Component.description c) (FeatureGuide.components guide));
         deepDives = join (nl @ nl) (map (\<lambda>d. ''### '' @ DeepDive.title d @ nl @ content d) (FeatureGuide.deepDive guide));
         examples = join nl (map (\<lambda>e. ''- **'' @ system e @ ''**: '' @ approach e) (realWorldExamples guide));
         tradeoffs' = join (nl @ nl)
           (map (\<lambda>t. ''### '' @ decision t @ nl @ ''**Pros:** '' @ join ''; '' (Tradeoff.pros t) @ nl @
                        ''**Cons:** '' @ join ''; '' (Tradeoff.cons t))
              (FeatureGuide.tradeoffs guide))
     in
       ''# How to Build: '' @ FeatureGuide.title guide @ nl @
       nl @
       ''You are an expert software architect. I want to implement '' @ toLowerCase (FeatureGuide.title guide) @ '' in my application. ('' @ FeatureGuide.tagline guide @ '').'' @ nl @
       nl @
       ''Use the following architectural guide to inform the design. Adapt it to my specific needs while preserving the key patterns.'' @ nl @
       nl @
       ''---'' @ nl @
       nl @
       ''## Problem'' @ nl @
       problem guide @ nl @
       nl @
       ''## Architectural Approaches'' @ nl @
       approaches' @ nl @
       nl @
       ''## Key Components'' @ nl @
       components' @ nl @
       nl @
       ''## Data Model (Mermaid ER Diagram)'' @ nl @
       ''```mermaid'' @ nl @
       FeatureGuide.dataModel guide @ nl @
       ''```'' @ nl @
       nl @
       ''## Deep Dives'' @ nl @
       deepDives @ nl @
       nl @
       ''## Real-World Examples'' @ nl @
       examples @ nl @
       nl @
       ''## Tradeoffs'' @ nl @
       tradeoffs' @ nl @
       nl @
       ''---'' @ nl @
       nl @
       ''## Instructions'' @ nl @
       nl @
       ''Based on the architecture above, please:'' @ nl @
       nl @
       ''1. **Recommend an approach** best suited for my scale, team, and constraints. Justify the choice.'' @ nl @
       ''2. **Design the data model** with proper indexes, partitioning, and storage strategy.'' @ nl @
       ''3. **Implement the core logic** with production-ready error handling and edge cases.'' @ nl @
       ''4. **Plan for scale** '' @ emdash @ '' identify bottlenecks and design for horizontal scaling.'' @ nl @
       ''5. **Add observability** '' @ emdash @ '' logging, metrics, and alerting for this feature.'' @ nl @
       nl @
       ''Start by asking me clarifying questions about my specific requirements, existing tech stack, and scale targets. Then produce a phased implementation plan.'' @ nl)"

section \<open>Observations on a generated prompt\<close>

text \<open>
  The notions in which the specification speaks about a prompt: strings joined by a
  separator, the first line of a text, and the closing instruction block of a prompt (the text from the last heading \<open>## Instructions\<close>
  to the end).
\<close>

text \<open>
  Strings joined by a separator: nothing for no string, otherwise the first string and
  then, for each further string, the separator and the string.
\<close>

definition separated_by :: "string \<Rightarrow> string list \<Rightarrow> string" where
  "separated_by sep xs =
     (case xs of [] \<Rightarrow> [] | x # rest \<Rightarrow> x @ concat (map (\<lambda>y. sep @ y) rest))"

definition first_line :: "string \<Rightarrow> string" where
  "first_line out = takeWhile (\<lambda>c. c \<noteq> CHR 0x0A) out"

fun last_suffix_from :: "string \<Rightarrow> string \<Rightarrow> string option" where
  "last_suffix_from m [] = None"
| "last_suffix_from m (c # cs) =
     (case last_suffix_from m cs of
        Some r \<Rightarrow> Some r
      | None \<Rightarrow> if prefix m (c # cs) then Some (c # cs) else None)"

definition instructions_block :: "string \<Rightarrow> string option" where
  "instructions_block out = last_suffix_from ''## Instructions'' out"

text \<open>
  The five numbered directives of a system prompt, as section 4.4 of the specification
  lists them: the tech stack, the database schema, the core services, the
  infrastructure, and the plan for scale.
\<close>

definition system_directives :: "string list" where
  "system_directives =
     [''1. **Choose a modern tech stack** appropriate for my team size and scale targets. Justify each choice.'',
      ''2. **Design the database schema** with proper indexes, partitioning strategy, and replication approach.'',
      ''3. **Implement the core services** starting with the most critical path (e.g., message delivery for messaging, feed generation for social).'',
      ''4. **Set up the infrastructure** with containerization, CI/CD, monitoring, and observability.'',
      ''5. **Plan for scale** '' @ emdash @ '' identify the components that will need horizontal scaling first and design them to be stateless where possible.'']"

text \<open>
  The five directives of a guide prompt: the approach, the data model, the core logic,
  the plan for scale, and observability.
\<close>

definition guide_directives :: "string list" where
  "guide_directives =
     [''1. **Recommend an approach** best suited for my scale, team, and constraints. Justify the choice.'',
      ''2. **Design the data model** with proper indexes, partitioning, and storage strategy.'',
      ''3. **Implement the core logic** with production-ready error handling and edge cases.'',
      ''4. **Plan for scale** '' @ emdash @ '' identify bottlenecks and design for horizontal scaling.'',
      ''5. **Add observability** '' @ emdash @ '' logging, metrics, and alerting for this feature.'']"

text \<open>
  An instruction block: the heading, the line that introduces the list, the directives
  one per line, and a closing sentence.
\<close>

definition instructions_of :: "string list \<Rightarrow> string \<Rightarrow> string" where
  "instructions_of ds closing =
     ''## Instructions'' @ nl @
     nl @
     ''Based on the architecture above, please:'' @ nl @
     nl @
     concat (map (\<lambda>d. d @ nl) ds) @
     nl @
     closing @ nl"

text \<open>
  The closing block of a system prompt; its closing sentence asks for clarifying questions
  about requirements, team size, budget and timeline.
\<close>

definition system_instructions_block :: string where
  "system_instructions_block =
     instructions_of system_directives
       (''Start by asking me clarifying questions about my specific requirements, team size, budget, and timeline. Then produce a phased implementation plan.'')"

text \<open>The closing block of a guide prompt, which asks about the existing tech stack.\<close>

definition guide_instructions_block :: string where
  "guide_instructions_block =
     instructions_of guide_directives
       (''Start by asking me clarifying questions about my specific requirements, existing tech stack, and scale targets. Then produce a phased implementation plan.'')"

text \<open>
  The introduction that follows the title line of a system prompt: the paragraph that
  names the system and its tagline, the paragraph on adapting the reference, and the
  rule that closes the introduction.
\<close>

definition system_preamble :: "string \<Rightarrow> string \<Rightarrow> string" where
  "system_preamble n t =
     nl @
     ''You are an expert software architect. I want to build a production-grade application inspired by '' @ n @ '' ('' @ t @ '').'' @ nl @
     nl @
     ''Use the following system design reference to guide the architecture, tech choices, and implementation. Adapt it to my specific needs while preserving the key architectural patterns that make this system work at scale.'' @ nl @
     nl @
     ''---'' @ nl @
     nl"

text \<open>The same for a guide prompt, which names the lower-cased title.\<close>

definition guide_preamble :: "string \<Rightarrow> string \<Rightarrow> string" where
  "guide_preamble ti t =
     nl @
     ''You are an expert software architect. I want to implement '' @ toLowerCase ti @ '' in my application. ('' @ t @ '').'' @ nl @
     nl @
     ''Use the following architectural guide to inform the design. Adapt it to my specific needs while preserving the key patterns.'' @ nl @
     nl @
     ''---'' @ nl @
     nl"

section \<open>Sample records\<close>

text \<open>
  Records in the shape of the examples of section 8 of the specification: a system named
  \<open>Acme\<close> with the scale entry \<open>Users: 1M\<close> first and the trade-off \<open>X\<close> with pros \<open>a\<close>,
  \<open>b\<close> and con \<open>c\<close>, and a guide.
\<close>

definition acme :: SystemDesign where
  "acme =
     \<lparr>SystemDesign.slug = ''acme'', name = ''Acme'', tagline = ''Everything, delivered'',
      category = commerce, tags = [''real-time'', ''caching''],
      overview = ''Acme ships anvils.'', scale = [(''Users'', ''1M''), (''Regions'', ''3'')],
      requirements = \<lparr>functional = [''Place an order''], nonFunctional = [''Low latency'']\<rparr>,
      highLevelDiagram = ''graph TD'',
      components = [\<lparr>Component.name = ''API'', description = ''The gateway''\<rparr>,
                    \<lparr>Component.name = ''Store'', description = ''The orders''\<rparr>],
      dataModel = ''erDiagram'',
      deepDive = [\<lparr>DeepDive.title = ''Sharding'', content = ''By user'', diagram = Some ''graph LR''\<rparr>,
                  \<lparr>DeepDive.title = ''Caching'', content = ''At the edge'', diagram = None\<rparr>],
      tradeoffs = [\<lparr>Tradeoff.decision = ''X'', pros = [''a'', ''b''], cons = [''c'']\<rparr>]\<rparr>"

definition sample_guide :: FeatureGuide where
  "sample_guide =
     \<lparr>FeatureGuide.slug = ''caching'', title = ''Caching Strategies'', tagline = ''Keep it close'',
      category = GuideCategory.data, tags = [''real-time'', ''caching''],
      problem = ''Reads are slow.'',
      approaches = [\<lparr>Approach.name = ''Cache-aside'', description = ''Read through the cache'',
                     pros = [''simple''], cons = [''stale reads'']\<rparr>],
      architectureDiagram = ''graph TD'',
      components = [\<lparr>Component.name = ''Cache'', description = ''An in-memory store''\<rparr>],
      dataModel = ''erDiagram'',
      deepDive = [\<lparr>DeepDive.title = ''Eviction'', content = ''LRU'', diagram = None\<rparr>],
      realWorldExamples = [\<lparr>system = ''Netflix'', approach = ''EVCache''\<rparr>],
      tradeoffs = [\<lparr>Tradeoff.decision = ''TTL'', pros = [''fresh''], cons = [''misses'']\<rparr>]\<rparr>"

text \<open>
  The record \<open>acme\<close> with another slug, other tags, another high-level diagram and no
  diagram in any deep dive.
\<close>

definition acme_variant :: SystemDesign where
  "acme_variant =
     acme\<lparr>SystemDesign.slug := ''acme-2'', SystemDesign.tags := [''anvils''],
          highLevelDiagram := ''flowchart LR'',
          SystemDesign.deepDive := map (\<lambda>d. d\<lparr>diagram := None\<rparr>) (SystemDesign.deepDive acme)\<rparr>"

text \<open>The record \<open>acme\<close> with a name of two lines.\<close>

definition acme_two_lines :: SystemDesign where
  "acme_two_lines = acme\<lparr>SystemDesign.name := ''A'' @ nl @ ''B''\<rparr>"

section \<open>Lemmas on the built-ins\<close>

lemma find_js_None_iff: "find_js p xs = None \<longleftrightarrow> (\<forall>x \<in> set xs. \<not> p x)"
  by (induction xs) auto

lemma find_js_append:
  "find_js p (xs @ ys) = (case find_js p xs of Some x \<Rightarrow> Some x | None \<Rightarrow> find_js p ys)"
  by (induction xs) auto

lemma find_js_first:
  "find_js p xs = Some r \<longleftrightarrow>
     (\<exists>i < length xs. xs ! i = r \<and> p r \<and> (\<forall>j < i. \<not> p (xs ! j)))"
proof (induction xs)
  case Nil
  show ?case by simp
next
  case (Cons x xs)
  show ?case
  proof (cases "p x")
    case True
    have "(\<exists>i < length (x # xs). (x # xs) ! i = r \<and> p r \<and> (\<forall>j < i. \<not> p ((x # xs) ! j)))
            \<longleftrightarrow> x = r"
    proof
      assume "\<exists>i < length (x # xs). (x # xs) ! i = r \<and> p r \<and> (\<forall>j < i. \<not> p ((x # xs) ! j))"
      then obtain i where i: "(x # xs) ! i = r" "\<forall>j < i. \<not> p ((x # xs) ! j)" by blast
      have "i = 0"
      proof (rule ccontr)
        assume "i \<noteq> 0"
        then have "\<not> p ((x # xs) ! 0)" using i(2) by blast
        then show False using True by simp
      qed
      then show "x = r" using i(1) by simp
    next
      assume "x = r"
      then have "(x # xs) ! 0 = r \<and> p r \<and> (\<forall>j < 0. \<not> p ((x # xs) ! j))" using True by simp
      then show "\<exists>i < length (x # xs). (x # xs) ! i = r \<and> p r \<and> (\<forall>j < i. \<not> p ((x # xs) ! j))"
        by (intro exI [of _ 0]) simp
    qed
    then show ?thesis using True by simp
  next
    case False
    have "(\<exists>i < length (x # xs). (x # xs) ! i = r \<and> p r \<and> (\<forall>j < i. \<not> p ((x # xs) ! j)))
            \<longleftrightarrow> (\<exists>i < length xs. xs ! i = r \<and> p r \<and> (\<forall>j < i. \<not> p (xs ! j)))"
      (is "?L \<longleftrightarrow> ?R")
    proof
      assume ?L
      then obtain i where i: "i < length (x # xs)" "(x # xs) ! i = r" "p r"
        "\<forall>j < i. \<not> p ((x # xs) ! j)" by blast
      have "i \<noteq> 0"
      proof
        assume "i = 0"
        then have "x = r" using i(2) by simp
        then show False using i(3) False by simp
      qed
      then obtain k where k: "i = Suc k" by (cases i) auto
      have "\<forall>j < k. \<not> p (xs ! j)"
      proof (intro allI impI)
        fix j assume "j < k"
        then have "Suc j < i" using k by simp
        then have "\<not> p ((x # xs) ! Suc j)" using i(4) by blast
        then show "\<not> p (xs ! j)" by simp
      qed
      then show ?R using i k by (intro exI [of _ k]) simp
    next
      assume ?R
      then obtain k where k: "k < length xs" "xs ! k = r" "p r" "\<forall>j < k. \<not> p (xs ! j)" by blast
      have "\<forall>j < Suc k. \<not> p ((x # xs) ! j)"
      proof (intro allI impI)
        fix j assume "j < Suc k"
        then show "\<not> p ((x # xs) ! j)" using False k(4) by (cases j) auto
      qed
      then show ?L using k by (intro exI [of _ "Suc k"]) simp
    qed
    then show ?thesis using False Cons.IH by simp
  qed
qed

lemma find_js_cases:
  "case find_js p xs of
     None \<Rightarrow> \<forall>x \<in> set xs. \<not> p x
   | Some r \<Rightarrow> \<exists>i < length xs. xs ! i = r \<and> p r \<and> (\<forall>j < i. \<not> p (xs ! j))"
proof (cases "find_js p xs")
  case None
  then have "\<forall>x \<in> set xs. \<not> p x" by (simp only: find_js_None_iff)
  with None show ?thesis by simp
next
  case (Some r)
  then have "\<exists>i < length xs. xs ! i = r \<and> p r \<and> (\<forall>j < i. \<not> p (xs ! j))"
    by (simp only: find_js_first)
  with Some show ?thesis by simp
qed

lemma find_js_shadow:
  "p x \<Longrightarrow> \<forall>y \<in> set ys. \<not> p y \<Longrightarrow> find_js p (ys @ x # zs) = Some x"
  by (simp add: find_js_append find_js_None_iff [THEN iffD2])

lemma filter_js_filter: "filter_js p xs = filter p xs"
  by (induction xs) auto

lemma flatMap_set: "set (flatMap f xs) = (\<Union>x \<in> set xs. set (f x))"
  by (induction xs) auto

lemma Set_add_set: "set (Set_add s x) = insert x (set s)"
  by (auto simp: Set_add_def)

lemma Set_add_distinct: "distinct s \<Longrightarrow> distinct (Set_add s x)"
  by (auto simp: Set_add_def)

lemma foldl_Set_add_set: "set (foldl Set_add acc xs) = set acc \<union> set xs"
  by (induction xs arbitrary: acc) (auto simp: Set_add_set)

lemma foldl_Set_add_distinct: "distinct acc \<Longrightarrow> distinct (foldl Set_add acc xs)"
  by (induction xs arbitrary: acc) (auto simp: Set_add_distinct)

lemma new_Set_set: "set (new_Set xs) = set xs"
  by (simp add: new_Set_def foldl_Set_add_set)

lemma new_Set_distinct: "distinct (new_Set xs)"
  by (simp add: new_Set_def foldl_Set_add_distinct)

lemma sort_js_set: "set (sort_js xs) = set xs"
  by (simp add: sort_js_def)

lemma sort_js_distinct: "distinct (sort_js xs) = distinct xs"
  by (simp add: sort_js_def)

lemma sort_js_sorted: "sorted (map utf16_units (sort_js xs))"
  by (simp add: sort_js_def sorted_sort_key)

lemma utf16_units_ascii: "list_all (\<lambda>c. c < CHR 0x80) s \<Longrightarrow> utf16_units s = map of_char s"
  by (induction s rule: utf16_units.induct)
    (auto simp: less_char_def lead2_def lead3_def lead4_def)

lemma map_of_char_le: "(map of_char xs :: nat list) \<le> map of_char ys \<longleftrightarrow> xs \<le> ys"
proof (induction xs arbitrary: ys)
  case Nil
  show ?case by simp
next
  case (Cons x xs)
  show ?case
  proof (cases ys)
    case Nil
    then show ?thesis by simp
  next
    case (Cons y ys')
    then show ?thesis
      using Cons.IH [of ys'] by (simp add: less_char_def)
  qed
qed

lemma sorted_ascii:
  assumes "list_all (list_all (\<lambda>c. c < CHR 0x80)) ts"
    and "sorted (map utf16_units ts)"
  shows "sorted ts"
proof -
  have eq: "map utf16_units ts = map (map of_char) ts"
    using assms(1) by (induction ts) (auto simp: utf16_units_ascii)
  have "sorted (map (map of_char :: string \<Rightarrow> nat list) ts)"
    using assms(2) unfolding eq .
  then show ?thesis
    by (simp add: sorted_map map_of_char_le)
qed

lemma join_separated_by: "join sep xs = separated_by sep xs"
  by (induction sep xs rule: join.induct) (simp_all add: separated_by_def)

lemma Object_entries_creation_order:
  "list_all (\<lambda>(k, v). \<not> is_array_index k) o' \<Longrightarrow> Object_entries o' = o'"
proof -
  assume a: "list_all (\<lambda>(k, v). \<not> is_array_index k) o'"
  then have "filter (\<lambda>(k, v). is_array_index k) o' = []"
    by (auto simp: filter_empty_conv list_all_iff)
  moreover have "filter (\<lambda>(k, v). \<not> is_array_index k) o' = o'"
    using a by (auto simp: filter_id_conv list_all_iff)
  ultimately show ?thesis
    by (simp add: Object_entries_def)
qed

lemmas entries_defs = Object_entries_def is_array_index_def decimal_value_def digit_index_def

lemmas units_defs = lead2_def lead3_def lead4_def cp2_def cp3_def cp4_def cont_def units_of_def

section \<open>Lemmas on the layout of the prompts\<close>

lemma last_suffix_from_append:
  "last_suffix_from m block = Some block \<Longrightarrow> last_suffix_from m (pre @ block) = Some block"
  by (induction pre) auto

lemma last_suffix_from_absent:
  "m \<noteq> [] \<Longrightarrow> hd m \<notin> set cs \<Longrightarrow> last_suffix_from m cs = None"
  by (induction cs) (auto simp: prefix_Cons)

lemmas block_defs =
  system_instructions_block_def guide_instructions_block_def instructions_of_def
  system_directives_def guide_directives_def

lemma last_suffix_from_heading:
  assumes "CHR ''#'' \<notin> set r"
  shows "last_suffix_from ''## Instructions'' (''## Instructions'' @ r) = Some (''## Instructions'' @ r)"
proof -
  have "last_suffix_from ''## Instructions'' ('' Instructions'' @ r) = None"
    using assms by (intro last_suffix_from_absent) auto
  then show ?thesis by simp
qed

lemma instructions_block_system: "instructions_block system_instructions_block = Some system_instructions_block"
proof -
  define r where "r = drop 15 system_instructions_block"
  have split: "system_instructions_block = ''## Instructions'' @ r"
    by (simp add: r_def block_defs)
  have "CHR ''#'' \<notin> set r"
    by (simp add: r_def block_defs)
  then show ?thesis
    unfolding instructions_block_def split by (rule last_suffix_from_heading)
qed

lemma instructions_block_guide: "instructions_block guide_instructions_block = Some guide_instructions_block"
proof -
  define r where "r = drop 15 guide_instructions_block"
  have split: "guide_instructions_block = ''## Instructions'' @ r"
    by (simp add: r_def block_defs)
  have "CHR ''#'' \<notin> set r"
    by (simp add: r_def block_defs)
  then show ?thesis
    unfolding instructions_block_def split by (rule last_suffix_from_heading)
qed

lemma instructions_block_append_system:
  "instructions_block (pre @ system_instructions_block) = Some system_instructions_block"
  using instructions_block_system last_suffix_from_append
  by (simp add: instructions_block_def)

lemma instructions_block_append_guide:
  "instructions_block (pre @ guide_instructions_block) = Some guide_instructions_block"
  using instructions_block_guide last_suffix_from_append
  by (simp add: instructions_block_def)

lemma generateBuildPrompt_layout:
  "generateBuildPrompt s =
     (''# Build a '' @ SystemDesign.name s @ ''-like System'' @ nl @
      system_preamble (SystemDesign.name s) (SystemDesign.tagline s) @
     ''## Overview'' @ nl @
     overview s @ nl @
     nl @
     ''## Target Scale'' @ nl @
     join nl (map (\<lambda>(k, v). ''- '' @ k @ '': '' @ v) (Object_entries (scale s))) @ nl @
     nl @
     ''## Functional Requirements'' @ nl @
     join nl (map (\<lambda>r. ''- '' @ r) (functional (requirements s))) @ nl @
     nl @
     ''## Non-Functional Requirements'' @ nl @
     join nl (map (\<lambda>r. ''- '' @ r) (nonFunctional (requirements s))) @ nl @
     nl @
     ''## Architecture Components'' @ nl @
     join (nl @ nl) (map (\<lambda>c. ''### '' @ Component.name c @ nl @ Component.description c) (SystemDesign.components s)) @ nl @
     nl @
     ''## Data Model (Mermaid ER Diagram)'' @ nl @
     ''```mermaid'' @ nl @
     SystemDesign.dataModel s @ nl @
     ''```'' @ nl @
     nl @
     ''## Key Architectural Deep Dives'' @ nl @
     join (nl @ nl) (map (\<lambda>d. ''### '' @ DeepDive.title d @ nl @ content d) (SystemDesign.deepDive s)) @ nl @
     nl @
     ''## Tradeoffs to Consider'' @ nl @
     join (nl @ nl) (map (\<lambda>t. ''### '' @ decision t @ nl @ ''**Pros:** '' @ join ''; '' (Tradeoff.pros t) @ nl @ ''**Cons:** '' @ join ''; '' (Tradeoff.cons t)) (SystemDesign.tradeoffs s)) @ nl @
     nl @
     ''---'' @ nl @
     nl) @
     system_instructions_block"
  by (simp add: generateBuildPrompt_def system_preamble_def block_defs Let_def)

lemma generateGuidePrompt_layout:
  "generateGuidePrompt g =
     (''# How to Build: '' @ FeatureGuide.title g @ nl @
      guide_preamble (FeatureGuide.title g) (FeatureGuide.tagline g) @
     ''## Problem'' @ nl @
     problem g @ nl @
     nl @
     ''## Architectural Approaches'' @ nl @
     join (nl @ nl) (map (\<lambda>(a, i). ''### Approach '' @ string_of_nat (i + 1) @ '': '' @ Approach.name a @ nl @ Approach.description a @ nl @ ''**Pros:** '' @ join ''; '' (Approach.pros a) @ nl @ ''**Cons:** '' @ join ''; '' (Approach.cons a)) (zip (approaches g) [0 ..< length (approaches g)])) @ nl @
     nl @
     ''## Key Components'' @ nl @
     join (nl @ nl) (map (\<lambda>c. ''### '' @ Component.name c @ nl @ Component.description c) (FeatureGuide.components g)) @ nl @
     nl @
     ''## Data Model (Mermaid ER Diagram)'' @ nl @
     ''```mermaid'' @ nl @
     FeatureGuide.dataModel g @ nl @
     ''```'' @ nl @
     nl @
     ''## Deep Dives'' @ nl @
     join (nl @ nl) (map (\<lambda>d. ''### '' @ DeepDive.title d @ nl @ content d) (FeatureGuide.deepDive g)) @ nl @
     nl @
     ''## Real-World Examples'' @ nl @
     join nl (map (\<lambda>e. ''- **'' @ system e @ ''**: '' @ approach e) (realWorldExamples g)) @ nl @
     nl @
     ''## Tradeoffs'' @ nl @
     join (nl @ nl) (map (\<lambda>t. ''### '' @ decision t @ nl @ ''**Pros:** '' @ join ''; '' (Tradeoff.pros t) @ nl @ ''**Cons:** '' @ join ''; '' (Tradeoff.cons t)) (FeatureGuide.tradeoffs g)) @ nl @
     nl @
     ''---'' @ nl @
     nl) @
     guide_instructions_block"
  by (simp add: generateGuidePrompt_def guide_preamble_def block_defs Let_def)

lemma generateBuildPromptFromMdx_layout:
  "generateBuildPromptFromMdx e =
     (''# Build a '' @ SystemData.name (SystemEntry.data e) @ ''-like System'' @ nl @
      system_preamble (SystemData.name (SystemEntry.data e)) (SystemData.tagline (SystemEntry.data e)) @
      ''## System Design Reference'' @ nl @
      (case SystemEntry.body e of Some b \<Rightarrow> b | None \<Rightarrow> '''') @ nl @
      nl @
      ''---'' @ nl @
      nl) @
     system_instructions_block"
  by (simp add: generateBuildPromptFromMdx_def system_preamble_def block_defs Let_def)

lemma generateGuidePromptFromMdx_layout:
  "generateGuidePromptFromMdx e =
     (''# How to Build: '' @ GuideData.title (GuideEntry.data e) @ nl @
      guide_preamble (GuideData.title (GuideEntry.data e)) (GuideData.tagline (GuideEntry.data e)) @
      (case GuideEntry.body e of Some b \<Rightarrow> b | None \<Rightarrow> '''') @ nl @
      nl @
      ''---'' @ nl @
      nl) @
     guide_instructions_block"
  by (simp add: generateGuidePromptFromMdx_def guide_preamble_def block_defs Let_def)

lemma instructions_block_generateBuildPrompt:
  "instructions_block (generateBuildPrompt s) = Some system_instructions_block"
  by (simp only: generateBuildPrompt_layout instructions_block_append_system)

lemma instructions_block_generateBuildPromptFromMdx:
  "instructions_block (generateBuildPromptFromMdx e) = Some system_instructions_block"
  by (simp only: generateBuildPromptFromMdx_layout instructions_block_append_system)

lemma instructions_block_generateGuidePrompt:
  "instructions_block (generateGuidePrompt g) = Some guide_instructions_block"
  by (simp only: generateGuidePrompt_layout instructions_block_append_guide)

lemma instructions_block_generateGuidePromptFromMdx:
  "instructions_block (generateGuidePromptFromMdx e) = Some guide_instructions_block"
  by (simp only: generateGuidePromptFromMdx_layout instructions_block_append_guide)

lemma first_line_append_nl: "CHR 0x0A \<notin> set l \<Longrightarrow> first_line (l @ nl @ rest) = l"
  by (induction l) (auto simp: first_line_def)

lemma first_line_prefix:
  "prefix (l @ nl) out \<Longrightarrow> CHR 0x0A \<notin> set l \<Longrightarrow> first_line out = l"
  using first_line_append_nl by (auto simp: prefix_def)

lemma lib_generateBuildPrompt_layout:
  "lib_generateBuildPrompt s =
     (''# Build a '' @ SystemDesign.name s @ ''-like System'' @ nl @
      system_preamble (SystemDesign.name s) (SystemDesign.tagline s) @
     ''## Overview'' @ nl @
     overview s @ nl @
     nl @
     ''## Target Scale'' @ nl @
     join nl (map (\<lambda>(k, v). ''- '' @ k @ '': '' @ v) (Object_entries (scale s))) @ nl @
     nl @
     ''## Functional Requirements'' @ nl @
     join nl (map (\<lambda>r. ''- '' @ r) (functional (requirements s))) @ nl @
     nl @
     ''## Non-Functional Requirements'' @ nl @
     join nl (map (\<lambda>r. ''- '' @ r) (nonFunctional (requirements s))) @ nl @
     nl @
     ''## Architecture Components'' @ nl @
     join (nl @ nl) (map (\<lambda>c. ''### '' @ Component.name c @ nl @ Component.description c) (SystemDesign.components s)) @ nl @
     nl @
     ''## Data Model (Mermaid ER Diagram)'' @ nl @
     ''```mermaid'' @ nl @
     SystemDesign.dataModel s @ nl @
     ''```'' @ nl @
     nl @
     ''## Key Architectural Deep Dives'' @ nl @
     join (nl @ nl) (map (\<lambda>d. ''### '' @ DeepDive.title d @ nl @ content d) (SystemDesign.deepDive s)) @ nl @
     nl @
     ''## Tradeoffs to Consider'' @ nl @
     join (nl @ nl) (map (\<lambda>t. ''### '' @ decision t @ nl @ ''**Pros:** '' @ join ''; '' (Tradeoff.pros t) @ nl @ ''**Cons:** '' @ join ''; '' (Tradeoff.cons t)) (SystemDesign.tradeoffs s)) @ nl @
     nl @
     ''---'' @ nl @
     nl) @
     ''## Instructions'' @ nl @
      (       nl @
       ''Based on the architecture above, please:'' @ nl @
       nl @
       ''1. **Choose a modern tech stack** appropriate for my team size and scale targets. Justify each choice.'' @ nl @
       ''2. **Design the database schema** with proper indexes, partitioning strategy, and replication approach.'' @ nl @
       ''3. **Implement the core services** starting with the most critical path (e.g., message delivery for messaging, feed generation for social).'' @ nl @
       ''4. **Set up the infrastructure** with containerization, CI/CD, monitoring, and observability.'' @ nl @
       ''5. **Plan for scale** '' @ [CHR 0xC3, CHR 0xA2] @ [CHR 0xE2, CHR 0x82, CHR 0xAC] @ [CHR 0xE2, CHR 0x80, CHR 0x9D] @ '' identify the components that will need horizontal scaling first and design them to be stateless where possible.'' @ nl @
       nl @
       ''Start by asking me clarifying questions about my specific requirements, team size, budget, and timeline. Then produce a phased implementation plan.'' @ nl)"
  by (simp add: lib_generateBuildPrompt_def system_preamble_def Let_def)

text \<open>
  The block that closes a prompt of the earlier revision is not the block of the later
  one: directive 5 has other bytes in the place of the em dash.
\<close>

lemma lib_instructions_block:
  "\<exists>r. instructions_block (lib_generateBuildPrompt s) = Some (''## Instructions'' @ r) \<and>
       ''## Instructions'' @ r \<noteq> system_instructions_block"
proof -
  define r where "r = nl @
      (       nl @
       ''Based on the architecture above, please:'' @ nl @
       nl @
       ''1. **Choose a modern tech stack** appropriate for my team size and scale targets. Justify each choice.'' @ nl @
       ''2. **Design the database schema** with proper indexes, partitioning strategy, and replication approach.'' @ nl @
       ''3. **Implement the core services** starting with the most critical path (e.g., message delivery for messaging, feed generation for social).'' @ nl @
       ''4. **Set up the infrastructure** with containerization, CI/CD, monitoring, and observability.'' @ nl @
       ''5. **Plan for scale** '' @ [CHR 0xC3, CHR 0xA2] @ [CHR 0xE2, CHR 0x82, CHR 0xAC] @ [CHR 0xE2, CHR 0x80, CHR 0x9D] @ '' identify the components that will need horizontal scaling first and design them to be stateless where possible.'' @ nl @
       nl @
       ''Start by asking me clarifying questions about my specific requirements, team size, budget, and timeline. Then produce a phased implementation plan.'' @ nl)"
  have "CHR ''#'' \<notin> set r"
    by (simp add: r_def)
  then have "last_suffix_from ''## Instructions'' (''## Instructions'' @ r) = Some (''## Instructions'' @ r)"
    by (rule last_suffix_from_heading)
  then have "instructions_block (pre @ ''## Instructions'' @ r) = Some (''## Instructions'' @ r)" for pre
    unfolding instructions_block_def by (rule last_suffix_from_append)
  moreover have "\<exists>pre. lib_generateBuildPrompt s = pre @ ''## Instructions'' @ r"
    unfolding r_def using lib_generateBuildPrompt_layout [of s] by blast
  moreover have "''## Instructions'' @ r \<noteq> system_instructions_block"
    by (simp add: r_def block_defs)
  ultimately show ?thesis by metis
qed

section \<open>The prompt generators\<close>

text \<open>
  C1 (as amended). For every record, the prompt of \<open>generateBuildPrompt\<close> begins with the
  title \<open># Build a {name}-like System\<close> and a line break, and this title is the first line
  of the prompt whenever the name has no line break. After the introduction come the
  sections Overview, Target Scale, Functional Requirements, Non-Functional Requirements,
  Architecture Components, Data Model, Key Architectural Deep Dives, Tradeoffs to Consider
  and Instructions, in this order. The scale entries are the bullets \<open>- {key}: {value}\<close>,
  one per line, in the order of the map: the order of \<open>Object.entries\<close>, which is the order
  in which the properties were created when no key is an array index, and puts such keys
  first otherwise. A trade-off is \<open>### {decision}\<close> with the lines \<open>**Pros:** \<close> and
  \<open>**Cons:** \<close> of its pros and cons separated by \<open>; \<close>, and a deep dive gives
  \<open>### {title}\<close> and its content: replacing the diagrams of the deep dives by any others
  leaves the prompt unchanged. This holds of both revisions of the function; they part
  only after the heading of the instructions.
\<close>

theorem generateBuildPrompt_format:
  "(let sections =
      ''# Build a '' @ SystemDesign.name s @ ''-like System'' @ nl @
      system_preamble (SystemDesign.name s) (SystemDesign.tagline s) @
     ''## Overview'' @ nl @
     overview s @ nl @
     nl @
     ''## Target Scale'' @ nl @
     separated_by nl (map (\<lambda>(k, v). ''- '' @ k @ '': '' @ v) (Object_entries (scale s))) @ nl @
     nl @
     ''## Functional Requirements'' @ nl @
     separated_by nl (map (\<lambda>r. ''- '' @ r) (functional (requirements s))) @ nl @
     nl @
     ''## Non-Functional Requirements'' @ nl @
     separated_by nl (map (\<lambda>r. ''- '' @ r) (nonFunctional (requirements s))) @ nl @
     nl @
     ''## Architecture Components'' @ nl @
     separated_by (nl @ nl) (map (\<lambda>c. ''### '' @ Component.name c @ nl @ Component.description c) (SystemDesign.components s)) @ nl @
     nl @
     ''## Data Model (Mermaid ER Diagram)'' @ nl @
     ''```mermaid'' @ nl @
     SystemDesign.dataModel s @ nl @
     ''```'' @ nl @
     nl @
     ''## Key Architectural Deep Dives'' @ nl @
     separated_by (nl @ nl) (map (\<lambda>d. ''### '' @ DeepDive.title d @ nl @ content d) (SystemDesign.deepDive s)) @ nl @
     nl @
     ''## Tradeoffs to Consider'' @ nl @
     separated_by (nl @ nl) (map (\<lambda>t. ''### '' @ decision t @ nl @ ''**Pros:** '' @ separated_by ''; '' (Tradeoff.pros t) @ nl @ ''**Cons:** '' @ separated_by ''; '' (Tradeoff.cons t)) (SystemDesign.tradeoffs s)) @ nl @
     nl @
     ''---'' @ nl @
     nl
    in generateBuildPrompt s = sections @ system_instructions_block \<and>
       (\<exists>outro. lib_generateBuildPrompt s = sections @ ''## Instructions'' @ outro)) \<and>
   prefix ''## Instructions'' system_instructions_block \<and>
   generateBuildPrompt (s\<lparr>SystemDesign.deepDive := map (\<lambda>d. d\<lparr>diagram := x d\<rparr>) (SystemDesign.deepDive s)\<rparr>)
     = generateBuildPrompt s \<and>
   (list_all (\<lambda>(k, v). \<not> is_array_index k) (scale s) \<longrightarrow> Object_entries (scale s) = scale s) \<and>
   Object_entries [(''Users'', ''1M''), (''7'', ''days'')] = [(''7'', ''days''), (''Users'', ''1M'')] \<and>
   (CHR 0x0A \<notin> set (SystemDesign.name s) \<longrightarrow>
      first_line (generateBuildPrompt s) = ''# Build a '' @ SystemDesign.name s @ ''-like System'' \<and>
      first_line (lib_generateBuildPrompt s) = ''# Build a '' @ SystemDesign.name s @ ''-like System'')"
  (is "?layout \<and> ?heading \<and> ?diagrams \<and> (?plain \<longrightarrow> ?created) \<and> ?indexed \<and>
       (?oneline \<longrightarrow> ?first \<and> ?first_lib)")
proof (intro conjI impI)
  show ?layout
    unfolding Let_def join_separated_by [symmetric]
    using generateBuildPrompt_layout [of s] lib_generateBuildPrompt_layout [of s] by blast
  show ?heading
    by (simp add: system_instructions_block_def instructions_of_def)
  show ?diagrams
    by (simp add: generateBuildPrompt_def Let_def comp_def)
  show ?indexed
    by (simp add: entries_defs)
next
  assume ?plain
  then show ?created
    by (rule Object_entries_creation_order)
next
  assume name: ?oneline
  have "prefix ((''# Build a '' @ SystemDesign.name s @ ''-like System'') @ nl) (generateBuildPrompt s)"
    by (simp add: generateBuildPrompt_def Let_def)
  then show ?first
    using name by (intro first_line_prefix) auto
  have "prefix ((''# Build a '' @ SystemDesign.name s @ ''-like System'') @ nl) (lib_generateBuildPrompt s)"
    by (simp add: lib_generateBuildPrompt_def Let_def)
  then show ?first_lib
    using name by (intro first_line_prefix) auto
qed

text \<open>
  At the record \<open>acme\<close>, whose name has no line break and whose scale has no array index
  among its keys: the first line and the whole prompt, with the bullet \<open>- Users: 1M\<close> and
  the lines \<open>**Pros:** a; b\<close> and \<open>**Cons:** c\<close> of the examples of the specification.
\<close>

theorem generateBuildPrompt_format_witness:
  "CHR 0x0A \<notin> set (SystemDesign.name acme) \<and>
   list_all (\<lambda>(k, v). \<not> is_array_index k) (scale acme) \<and>
   Object_entries (scale acme) = [(''Users'', ''1M''), (''Regions'', ''3'')] \<and>
   first_line (generateBuildPrompt acme) = ''# Build a Acme-like System'' \<and>
   first_line (lib_generateBuildPrompt acme) = ''# Build a Acme-like System'' \<and>
   generateBuildPrompt acme =
     ''# Build a Acme-like System'' @ nl @
     nl @
     ''You are an expert software architect. I want to build a production-grade application inspired by Acme (Everything, delivered).'' @ nl @
     nl @
     ''Use the following system design reference to guide the architecture, tech choices, and implementation. Adapt it to my specific needs while preserving the key architectural patterns that make this system work at scale.'' @ nl @
     nl @
     ''---'' @ nl @
     nl @
     ''## Overview'' @ nl @
     ''Acme ships anvils.'' @ nl @
     nl @
     ''## Target Scale'' @ nl @
     ''- Users: 1M'' @ nl @
     ''- Regions: 3'' @ nl @
     nl @
     ''## Functional Requirements'' @ nl @
     ''- Place an order'' @ nl @
     nl @
     ''## Non-Functional Requirements'' @ nl @
     ''- Low latency'' @ nl @
     nl @
     ''## Architecture Components'' @ nl @
     ''### API'' @ nl @
     ''The gateway'' @ nl @
     nl @
     ''### Store'' @ nl @
     ''The orders'' @ nl @
     nl @
     ''## Data Model (Mermaid ER Diagram)'' @ nl @
     ''```mermaid'' @ nl @
     ''erDiagram'' @ nl @
     ''```'' @ nl @
     nl @
     ''## Key Architectural Deep Dives'' @ nl @
     ''### Sharding'' @ nl @
     ''By user'' @ nl @
     nl @
     ''### Caching'' @ nl @
     ''At the edge'' @ nl @
     nl @
     ''## Tradeoffs to Consider'' @ nl @
     ''### X'' @ nl @
     ''**Pros:** a; b'' @ nl @
     ''**Cons:** c'' @ nl @
     nl @
     ''---'' @ nl @
     nl @
     ''## Instructions'' @ nl @
     nl @
     ''Based on the architecture above, please:'' @ nl @
     nl @
     ''1. **Choose a modern tech stack** appropriate for my team size and scale targets. Justify each choice.'' @ nl @
     ''2. **Design the database schema** with proper indexes, partitioning strategy, and replication approach.'' @ nl @
     ''3. **Implement the core services** starting with the most critical path (e.g., message delivery for messaging, feed generation for social).'' @ nl @
     ''4. **Set up the infrastructure** with containerization, CI/CD, monitoring, and observability.'' @ nl @
     ''5. **Plan for scale** '' @ emdash @ '' identify the components that will need horizontal scaling first and design them to be stateless where possible.'' @ nl @
     nl @
     ''Start by asking me clarifying questions about my specific requirements, team size, budget, and timeline. Then produce a phased implementation plan.'' @ nl"
proof -
  have name: "CHR 0x0A \<notin> set (SystemDesign.name acme)"
    by (simp add: acme_def)
  have plain: "list_all (\<lambda>(k, v). \<not> is_array_index k) (scale acme)"
    by (simp add: acme_def is_array_index_def)
  note format = generateBuildPrompt_format [where s = acme and x = diagram]
  have entries: "Object_entries (scale acme) = scale acme"
    using format plain by blast
  have "first_line (generateBuildPrompt acme) = ''# Build a '' @ SystemDesign.name acme @ ''-like System'' \<and>
        first_line (lib_generateBuildPrompt acme) = ''# Build a '' @ SystemDesign.name acme @ ''-like System''"
    using format name by blast
  moreover have "generateBuildPrompt acme =
      (''# Build a '' @ SystemDesign.name acme @ ''-like System'' @ nl @
      system_preamble (SystemDesign.name acme) (SystemDesign.tagline acme) @
     ''## Overview'' @ nl @
     overview acme @ nl @
     nl @
     ''## Target Scale'' @ nl @
     separated_by nl (map (\<lambda>(k, v). ''- '' @ k @ '': '' @ v) (Object_entries (scale acme))) @ nl @
     nl @
     ''## Functional Requirements'' @ nl @
     separated_by nl (map (\<lambda>r. ''- '' @ r) (functional (requirements acme))) @ nl @
     nl @
     ''## Non-Functional Requirements'' @ nl @
     separated_by nl (map (\<lambda>r. ''- '' @ r) (nonFunctional (requirements acme))) @ nl @
     nl @
     ''## Architecture Components'' @ nl @
     separated_by (nl @ nl) (map (\<lambda>c. ''### '' @ Component.name c @ nl @ Component.description c) (SystemDesign.components acme)) @ nl @
     nl @
     ''## Data Model (Mermaid ER Diagram)'' @ nl @
     ''```mermaid'' @ nl @
     SystemDesign.dataModel acme @ nl @
     ''```'' @ nl @
     nl @
     ''## Key Architectural Deep Dives'' @ nl @
     separated_by (nl @ nl) (map (\<lambda>d. ''### '' @ DeepDive.title d @ nl @ content d) (SystemDesign.deepDive acme)) @ nl @
     nl @
     ''## Tradeoffs to Consider'' @ nl @
     separated_by (nl @ nl) (map (\<lambda>t. ''### '' @ decision t @ nl @ ''**Pros:** '' @ separated_by ''; '' (Tradeoff.pros t) @ nl @ ''**Cons:** '' @ separated_by ''; '' (Tradeoff.cons t)) (SystemDesign.tradeoffs acme)) @ nl @
     nl @
     ''---'' @ nl @
     nl) @ system_instructions_block"
    using format unfolding Let_def by blast
  ultimately show ?thesis
    using name plain entries
    by (simp add: acme_def separated_by_def system_preamble_def block_defs)
qed

text \<open>
  The claim as it was stated fails at a name of two lines: the first line of the prompt
  of \<open>acme_two_lines\<close> is \<open># Build a A\<close>, which is not the title with the whole name.
\<close>

theorem generateBuildPrompt_first_line_counterexample:
  "first_line (generateBuildPrompt acme_two_lines) = ''# Build a A'' \<and>
   first_line (generateBuildPrompt acme_two_lines)
     \<noteq> ''# Build a '' @ SystemDesign.name acme_two_lines @ ''-like System''"
  by (simp add: first_line_def generateBuildPrompt_def acme_two_lines_def acme_def Let_def)

text \<open>
  C2. For every entry with a body, \<open>generateBuildPromptFromMdx\<close> returns the title line,
  the introduction that names the system and its tagline, the one section
  \<open>## System Design Reference\<close> with the body as it is, a rule, and the closing
  instruction block. That block is, character for character, the block that closes every
  prompt of \<open>generateBuildPrompt\<close> of the same module: the heading, the five directives
  \<open>system_directives\<close> and the closing sentence.
\<close>

theorem generateBuildPromptFromMdx_format:
  "generateBuildPromptFromMdx \<lparr>SystemEntry.data = \<lparr>SystemData.name = n, tagline = t\<rparr>, body = Some b\<rparr> =
     ''# Build a '' @ n @ ''-like System'' @ nl @
     system_preamble n t @
     ''## System Design Reference'' @ nl @
     b @ nl @
     nl @
     ''---'' @ nl @
     nl @
     system_instructions_block \<and>
   suffix system_instructions_block (generateBuildPrompt s) \<and>
   instructions_block (generateBuildPromptFromMdx \<lparr>SystemEntry.data = \<lparr>SystemData.name = n, tagline = t\<rparr>, body = Some b\<rparr>)
     = Some system_instructions_block \<and>
   instructions_block (generateBuildPrompt s) = Some system_instructions_block \<and>
   length system_directives = 5"
  (is "?layout \<and> ?closes \<and> ?block_mdx \<and> ?block_legacy \<and> ?five")
proof (intro conjI)
  show ?layout
    by (simp add: generateBuildPromptFromMdx_layout)
  show ?closes
    by (simp only: generateBuildPrompt_layout suffix_appendI suffix_order.refl)
  show ?block_mdx
    by (rule instructions_block_generateBuildPromptFromMdx)
  show ?block_legacy
    by (rule instructions_block_generateBuildPrompt)
  show ?five
    by (simp add: system_directives_def)
qed

text \<open>
  C5. The instruction block of a guide prompt differs from that of a system prompt,
  whatever the inputs: every prompt of the two system generators closes with the block of
  \<open>system_directives\<close>, every prompt of the two guide generators with the block of
  \<open>guide_directives\<close>, the two blocks differ, each list has five directives, and no
  directive of one list is a directive of the other.
\<close>

theorem guide_instructions_differ:
  "instructions_block (generateBuildPrompt s) = Some system_instructions_block \<and>
   instructions_block (generateBuildPromptFromMdx se) = Some system_instructions_block \<and>
   instructions_block (generateGuidePrompt g) = Some guide_instructions_block \<and>
   instructions_block (generateGuidePromptFromMdx ge) = Some guide_instructions_block \<and>
   instructions_block (generateGuidePrompt g) \<noteq> instructions_block (generateBuildPrompt s) \<and>
   instructions_block (generateGuidePromptFromMdx ge) \<noteq> instructions_block (generateBuildPromptFromMdx se) \<and>
   guide_instructions_block \<noteq> system_instructions_block \<and>
   length guide_directives = 5 \<and> length system_directives = 5 \<and>
   guide_directives \<noteq> system_directives \<and>
   set guide_directives \<inter> set system_directives = {}"
proof -
  have blocks: "guide_instructions_block \<noteq> system_instructions_block"
    by (simp add: block_defs)
  have "set guide_directives \<inter> set system_directives = {}"
    by (simp add: system_directives_def guide_directives_def)
  moreover have "guide_directives \<noteq> system_directives"
    by (simp add: system_directives_def guide_directives_def)
  moreover have "length guide_directives = 5" "length system_directives = 5"
    by (simp_all add: system_directives_def guide_directives_def)
  ultimately show ?thesis
    using blocks
    by (simp add: instructions_block_generateBuildPrompt instructions_block_generateBuildPromptFromMdx
        instructions_block_generateGuidePrompt instructions_block_generateGuidePromptFromMdx)
qed

text \<open>
  C9. The prompt of \<open>generateBuildPrompt\<close> does not depend on the slug, the tags, the
  high-level diagram or the diagrams of the deep dives: two records that agree on the
  name, the tagline, the overview, the scale, the requirements, the components, the data
  model, the trade-offs and on the titles and contents of their deep dives, in order,
  have the same prompt. (They need not agree on the category either.)
\<close>

theorem generateBuildPrompt_independent:
  assumes "SystemDesign.name s1 = SystemDesign.name s2"
    and "SystemDesign.tagline s1 = SystemDesign.tagline s2"
    and "overview s1 = overview s2"
    and "scale s1 = scale s2"
    and "requirements s1 = requirements s2"
    and "SystemDesign.components s1 = SystemDesign.components s2"
    and "SystemDesign.dataModel s1 = SystemDesign.dataModel s2"
    and "SystemDesign.tradeoffs s1 = SystemDesign.tradeoffs s2"
    and "map (\<lambda>d. (DeepDive.title d, content d)) (SystemDesign.deepDive s1)
           = map (\<lambda>d. (DeepDive.title d, content d)) (SystemDesign.deepDive s2)"
  shows "generateBuildPrompt s1 = generateBuildPrompt s2 \<and>
         lib_generateBuildPrompt s1 = lib_generateBuildPrompt s2"
proof -
  have "map (\<lambda>p. ''### '' @ fst p @ nl @ snd p)
          (map (\<lambda>d. (DeepDive.title d, content d)) (SystemDesign.deepDive s1))
        = map (\<lambda>p. ''### '' @ fst p @ nl @ snd p)
          (map (\<lambda>d. (DeepDive.title d, content d)) (SystemDesign.deepDive s2))"
    using assms(9) by (rule arg_cong)
  then have dives: "map (\<lambda>d. ''### '' @ DeepDive.title d @ nl @ content d) (SystemDesign.deepDive s1)
          = map (\<lambda>d. ''### '' @ DeepDive.title d @ nl @ content d) (SystemDesign.deepDive s2)"
    by (simp only: map_map comp_def fst_conv snd_conv)
  have "generateBuildPrompt s1 = generateBuildPrompt s2"
    using assms(1-8) dives by (simp add: generateBuildPrompt_def Let_def)
  moreover have "lib_generateBuildPrompt s1 = lib_generateBuildPrompt s2"
    using assms(1-8) dives by (simp add: lib_generateBuildPrompt_def Let_def)
  ultimately show ?thesis by simp
qed

text \<open>At \<open>acme\<close> and \<open>acme_variant\<close>, which differ in the four places.\<close>

theorem generateBuildPrompt_independent_witness:
  "SystemDesign.slug acme \<noteq> SystemDesign.slug acme_variant \<and>
   SystemDesign.tags acme \<noteq> SystemDesign.tags acme_variant \<and>
   highLevelDiagram acme \<noteq> highLevelDiagram acme_variant \<and>
   SystemDesign.deepDive acme \<noteq> SystemDesign.deepDive acme_variant \<and>
   generateBuildPrompt acme = generateBuildPrompt acme_variant \<and>
   lib_generateBuildPrompt acme = lib_generateBuildPrompt acme_variant"
proof -
  have "generateBuildPrompt acme = generateBuildPrompt acme_variant \<and>
        lib_generateBuildPrompt acme = lib_generateBuildPrompt acme_variant"
    by (rule generateBuildPrompt_independent) (simp_all add: acme_variant_def acme_def)
  then show ?thesis
    by (simp add: acme_variant_def acme_def)
qed

text \<open>
  C10. On an entry with no body the two \<open>FromMdx\<close> generators return the complete prompt:
  the title line, the introduction, an empty reference (the empty string stands for the
  body) and the whole closing instruction block. It is the prompt of the entry whose
  body is the empty string.
\<close>

theorem generatePromptFromMdx_absent_body:
  "generateBuildPromptFromMdx \<lparr>SystemEntry.data = \<lparr>SystemData.name = n, tagline = t\<rparr>, body = None\<rparr> =
     ''# Build a '' @ n @ ''-like System'' @ nl @
     system_preamble n t @
     ''## System Design Reference'' @ nl @
     '''' @ nl @
     nl @
     ''---'' @ nl @
     nl @
     system_instructions_block \<and>
   generateBuildPromptFromMdx \<lparr>SystemEntry.data = \<lparr>SystemData.name = n, tagline = t\<rparr>, body = None\<rparr> =
     generateBuildPromptFromMdx \<lparr>SystemEntry.data = \<lparr>SystemData.name = n, tagline = t\<rparr>, body = Some ''''\<rparr> \<and>
   generateGuidePromptFromMdx \<lparr>GuideEntry.data = \<lparr>GuideData.title = ti, tagline = t\<rparr>, body = None\<rparr> =
     ''# How to Build: '' @ ti @ nl @
     guide_preamble ti t @
     '''' @ nl @
     nl @
     ''---'' @ nl @
     nl @
     guide_instructions_block \<and>
   generateGuidePromptFromMdx \<lparr>GuideEntry.data = \<lparr>GuideData.title = ti, tagline = t\<rparr>, body = None\<rparr> =
     generateGuidePromptFromMdx \<lparr>GuideEntry.data = \<lparr>GuideData.title = ti, tagline = t\<rparr>, body = Some ''''\<rparr>"
  by (simp add: generateBuildPromptFromMdx_layout generateGuidePromptFromMdx_layout)

section \<open>The category tables\<close>

text \<open>
  C3. Both tables have an entry for every member of \<open>Category\<close>, hence for the category of
  every record of the roster; the records of the roster that are in the repository are
  checked one by one. The category \<open>productivity\<close> of the Google Drive record has the
  label \<open>Productivity\<close> and the colour token \<open>bg-cat-productivity\<close>. In the earlier
  revision, the tables of seven entries cover the roster of six records.
\<close>

theorem category_tables_cover_roster:
  "categoryLabels c \<noteq> None \<and> categoryColors c \<noteq> None \<and>
   list_all (\<lambda>(sl, c). categoryLabels c \<noteq> None \<and> categoryColors c \<noteq> None) roster_categories \<and>
   (''google-drive'', productivity) \<in> set roster_categories \<and>
   categoryLabels productivity = Some ''Productivity'' \<and>
   categoryColors productivity = Some ''bg-cat-productivity'' \<and>
   list_all (\<lambda>(sl, c). categoryLabels_7 c \<noteq> None \<and> categoryColors_7 c \<noteq> None) roster_categories_6"
proof -
  have "categoryLabels c \<noteq> None \<and> categoryColors c \<noteq> None"
    by (cases c) (simp_all add: categoryLabels_def categoryColors_def)
  moreover have "list_all (\<lambda>(sl, c). categoryLabels c \<noteq> None \<and> categoryColors c \<noteq> None) roster_categories"
    by (simp add: roster_categories_def categoryLabels_def categoryColors_def)
  moreover have "list_all (\<lambda>(sl, c). categoryLabels_7 c \<noteq> None \<and> categoryColors_7 c \<noteq> None) roster_categories_6"
    by (simp add: roster_categories_6_def categoryLabels_7_def categoryColors_7_def)
  ultimately show ?thesis
    by (simp add: roster_categories_def categoryLabels_def categoryColors_def)
qed

text \<open>
  C4. A category that the local table of the preview-image generator does not hold, such
  as \<open>productivity\<close>, gets the fallback colour \<open>#6b4c3b\<close>; a category that the table
  holds gets the entry of the table. The table has the seven entries of the original
  categories.
\<close>

theorem color_fallback:
  "(categoryColor c = None \<longrightarrow> color c = ''#6b4c3b'') \<and>
   (\<forall>v. categoryColor c = Some v \<longrightarrow> color c = v) \<and>
   dom categoryColor = {messaging, social, streaming, transport, search, commerce, infra} \<and>
   categoryColor productivity = None"
  by (auto simp: color_def categoryColor_def split: if_splits)

theorem color_fallback_witness:
  "categoryColor productivity = None \<and> color productivity = ''#6b4c3b'' \<and>
   categoryColor video = None \<and> color video = ''#6b4c3b'' \<and>
   categoryColor messaging = Some ''#2d6a4f'' \<and> color messaging = ''#2d6a4f''"
proof -
  have absent: "categoryColor productivity = None" "categoryColor video = None"
    and present: "categoryColor messaging = Some ''#2d6a4f''"
    by (simp_all add: categoryColor_def)
  show ?thesis
    using color_fallback [of productivity] color_fallback [of video] color_fallback [of messaging]
      absent present by simp
qed

section \<open>The aggregation index\<close>

text \<open>
  C6. \<open>getSystemBySlug\<close> and \<open>getGuideBySlug\<close> return a value for every roster and every
  slug. The value is \<open>undefined\<close> exactly when no record of the roster has the slug;
  otherwise it is the record at the least index whose slug is the argument. When two
  records share a slug, the earlier one is returned.
\<close>

theorem getBySlug_first_match:
  "(case getSystemBySlug systems sl of
      None \<Rightarrow> \<forall>s \<in> set systems. SystemDesign.slug s \<noteq> sl
    | Some r \<Rightarrow> \<exists>i < length systems. systems ! i = r \<and> SystemDesign.slug r = sl \<and>
                 (\<forall>j < i. SystemDesign.slug (systems ! j) \<noteq> sl)) \<and>
   ((\<forall>s \<in> set systems. SystemDesign.slug s \<noteq> sl) \<longrightarrow> getSystemBySlug systems sl = None) \<and>
   (SystemDesign.slug a = sl \<and> SystemDesign.slug b = sl \<and> (\<forall>s \<in> set pre. SystemDesign.slug s \<noteq> sl) \<longrightarrow>
      getSystemBySlug (pre @ a # mid @ b # rest) sl = Some a) \<and>
   (case getGuideBySlug guides sl of
      None \<Rightarrow> \<forall>g \<in> set guides. FeatureGuide.slug g \<noteq> sl
    | Some r \<Rightarrow> \<exists>i < length guides. guides ! i = r \<and> FeatureGuide.slug r = sl \<and>
                 (\<forall>j < i. FeatureGuide.slug (guides ! j) \<noteq> sl)) \<and>
   ((\<forall>g \<in> set guides. FeatureGuide.slug g \<noteq> sl) \<longrightarrow> getGuideBySlug guides sl = None) \<and>
   (FeatureGuide.slug ga = sl \<and> FeatureGuide.slug gb = sl \<and> (\<forall>g \<in> set gpre. FeatureGuide.slug g \<noteq> sl) \<longrightarrow>
      getGuideBySlug (gpre @ ga # gmid @ gb # grest) sl = Some ga)"
proof -
  show ?thesis
    unfolding getSystemBySlug_def getGuideBySlug_def
    using find_js_cases [where p = "\<lambda>s. SystemDesign.slug s = sl" and xs = systems]
      find_js_cases [where p = "\<lambda>g. FeatureGuide.slug g = sl" and xs = guides]
      find_js_shadow [where p = "\<lambda>s. SystemDesign.slug s = sl" and x = a and ys = pre and zs = "mid @ b # rest"]
      find_js_shadow [where p = "\<lambda>g. FeatureGuide.slug g = sl" and x = ga and ys = gpre and zs = "gmid @ gb # grest"]
    by (simp add: find_js_None_iff)
qed

text \<open>
  At a roster of three records of which the last two share the slug \<open>acme\<close>, and at a
  slug that no record has; the same for guides.
\<close>

theorem getBySlug_first_match_witness:
  "SystemDesign.slug acme = ''acme'' \<and>
   SystemDesign.slug (acme\<lparr>SystemDesign.name := ''Second''\<rparr>) = ''acme'' \<and>
   SystemDesign.slug acme_variant \<noteq> ''acme'' \<and>
   getSystemBySlug [acme_variant, acme, acme\<lparr>SystemDesign.name := ''Second''\<rparr>] ''acme'' = Some acme \<and>
   SystemDesign.slug acme_variant \<noteq> ''nonexistent'' \<and> SystemDesign.slug acme \<noteq> ''nonexistent'' \<and>
   getSystemBySlug [acme_variant, acme] ''nonexistent'' = None \<and>
   FeatureGuide.slug sample_guide = ''caching'' \<and>
   FeatureGuide.slug (sample_guide\<lparr>FeatureGuide.title := ''Second''\<rparr>) = ''caching'' \<and>
   FeatureGuide.slug (sample_guide\<lparr>FeatureGuide.slug := ''webhooks''\<rparr>) \<noteq> ''caching'' \<and>
   getGuideBySlug [sample_guide\<lparr>FeatureGuide.slug := ''webhooks''\<rparr>, sample_guide,
                   sample_guide\<lparr>FeatureGuide.title := ''Second''\<rparr>] ''caching'' = Some sample_guide \<and>
   FeatureGuide.slug sample_guide \<noteq> ''nonexistent'' \<and>
   getGuideBySlug [sample_guide] ''nonexistent'' = None"
proof -
  have slugs: "SystemDesign.slug acme = ''acme''" "SystemDesign.slug acme_variant = ''acme-2''"
    "FeatureGuide.slug sample_guide = ''caching''"
    by (simp_all add: acme_def acme_variant_def sample_guide_def)
  show ?thesis
    using slugs
      getBySlug_first_match [where sl = "''acme''" and a = acme
        and b = "acme\<lparr>SystemDesign.name := ''Second''\<rparr>" and pre = "[acme_variant]"
        and mid = "[]" and rest = "[]"]
      getBySlug_first_match [where sl = "''caching''" and ga = sample_guide
        and gb = "sample_guide\<lparr>FeatureGuide.title := ''Second''\<rparr>"
        and gpre = "[sample_guide\<lparr>FeatureGuide.slug := ''webhooks''\<rparr>]"
        and gmid = "[]" and grest = "[]"]
      getBySlug_first_match [where sl = "''nonexistent''" and systems = "[acme_variant, acme]"
        and guides = "[sample_guide]"]
    by simp
qed

text \<open>
  C7. \<open>getSystemsByCategory\<close> and \<open>getGuidesByCategory\<close> return the records of the roster
  whose category is the argument: the same records (as many times as the roster has
  them), in the order of the roster, and the empty list when no record has the category.
\<close>

theorem getByCategory_exact:
  "getSystemsByCategory systems c = filter (\<lambda>s. SystemDesign.category s = c) systems \<and>
   set (getSystemsByCategory systems c) = {s \<in> set systems. SystemDesign.category s = c} \<and>
   subseq (getSystemsByCategory systems c) systems \<and>
   ((\<forall>s \<in> set systems. SystemDesign.category s \<noteq> c) \<longrightarrow> getSystemsByCategory systems c = []) \<and>
   getGuidesByCategory guides gc = filter (\<lambda>g. FeatureGuide.category g = gc) guides \<and>
   set (getGuidesByCategory guides gc) = {g \<in> set guides. FeatureGuide.category g = gc} \<and>
   subseq (getGuidesByCategory guides gc) guides \<and>
   ((\<forall>g \<in> set guides. FeatureGuide.category g \<noteq> gc) \<longrightarrow> getGuidesByCategory guides gc = [])"
  by (simp add: getSystemsByCategory_def getGuidesByCategory_def filter_js_filter filter_empty_conv)

text \<open>At rosters in which no record has the category asked for, and at one that has two.\<close>

theorem getByCategory_exact_witness:
  "SystemDesign.category acme \<noteq> social \<and> SystemDesign.category acme_variant \<noteq> social \<and>
   getSystemsByCategory [acme, acme_variant] social = [] \<and>
   FeatureGuide.category sample_guide \<noteq> media \<and>
   getGuidesByCategory [sample_guide] media = [] \<and>
   getSystemsByCategory [acme, acme\<lparr>SystemDesign.category := social\<rparr>, acme_variant] commerce
     = [acme, acme_variant]"
proof -
  have cats: "SystemDesign.category acme = commerce" "SystemDesign.category acme_variant = commerce"
    "FeatureGuide.category sample_guide = GuideCategory.data"
    by (simp_all add: acme_def acme_variant_def sample_guide_def)
  show ?thesis
    using cats
      getByCategory_exact [where systems = "[acme, acme_variant]" and c = social
        and guides = "[sample_guide]" and gc = media]
      getByCategory_exact [where systems = "[acme, acme\<lparr>SystemDesign.category := social\<rparr>, acme_variant]"
        and c = commerce]
    by simp
qed

text \<open>
  C8. \<open>getAllTags\<close> and \<open>getAllGuideTags\<close> return a list that holds exactly the tags of the
  records of the roster, each once, in ascending lexicographic order of their code
  units. When all tags are ASCII text this is the ascending order of the strings as lists
  of characters, and the list is strictly ascending in it. On a roster whose records
  carry \<open>real-time\<close>, and \<open>real-time\<close> and \<open>caching\<close>, the list is \<open>caching\<close>, \<open>real-time\<close>;
  the tag U+1F600, whose first code unit is \<open>D83D\<close>, comes before the tag U+FF5E.
\<close>

theorem getAllTags_sorted_distinct:
  "set (getAllTags systems) = (\<Union>s \<in> set systems. set (SystemDesign.tags s)) \<and>
   distinct (getAllTags systems) \<and>
   sorted (map utf16_units (getAllTags systems)) \<and>
   (list_all (\<lambda>s. list_all (list_all (\<lambda>c. c < CHR 0x80)) (SystemDesign.tags s)) systems \<longrightarrow>
      sorted (getAllTags systems) \<and> sorted_wrt (<) (getAllTags systems)) \<and>
   set (getAllGuideTags guides) = (\<Union>g \<in> set guides. set (FeatureGuide.tags g)) \<and>
   distinct (getAllGuideTags guides) \<and>
   sorted (map utf16_units (getAllGuideTags guides)) \<and>
   (list_all (\<lambda>g. list_all (list_all (\<lambda>c. c < CHR 0x80)) (FeatureGuide.tags g)) guides \<longrightarrow>
      sorted (getAllGuideTags guides) \<and> sorted_wrt (<) (getAllGuideTags guides)) \<and>
   getAllTags [acme\<lparr>SystemDesign.tags := [''real-time'']\<rparr>, acme\<lparr>SystemDesign.tags := [''real-time'', ''caching'']\<rparr>]
     = [''caching'', ''real-time''] \<and>
   getAllTags [acme\<lparr>SystemDesign.tags := [[CHR 0xEF, CHR 0xBD, CHR 0x9E], [CHR 0xF0, CHR 0x9F, CHR 0x98, CHR 0x80]]\<rparr>]
     = [[CHR 0xF0, CHR 0x9F, CHR 0x98, CHR 0x80], [CHR 0xEF, CHR 0xBD, CHR 0x9E]]"
  (is "?set \<and> ?distinct \<and> ?units \<and> (?ascii \<longrightarrow> ?sorted \<and> ?strict) \<and>
       ?gset \<and> ?gdistinct \<and> ?gunits \<and> (?gascii \<longrightarrow> ?gsorted \<and> ?gstrict) \<and> ?example \<and> ?beyond")
proof (intro conjI impI)
  show set: ?set
    by (simp add: getAllTags_def sort_js_set new_Set_set flatMap_set)
  show distinct: ?distinct
    by (simp add: getAllTags_def sort_js_distinct new_Set_distinct)
  show units: ?units
    by (simp add: getAllTags_def sort_js_sorted)
  show gset: ?gset
    by (simp add: getAllGuideTags_def sort_js_set new_Set_set flatMap_set)
  show gdistinct: ?gdistinct
    by (simp add: getAllGuideTags_def sort_js_distinct new_Set_distinct)
  show gunits: ?gunits
    by (simp add: getAllGuideTags_def sort_js_sorted)
  show ?example
    by (simp add: getAllTags_def sort_js_def new_Set_def Set_add_def units_defs)
  show ?beyond
    by (simp add: getAllTags_def sort_js_def new_Set_def Set_add_def units_defs)
  {
    assume ?ascii
    then have "list_all (list_all (\<lambda>c. c < CHR 0x80)) (getAllTags systems)"
      using set by (auto simp: list_all_iff)
    then show ?sorted
      using units by (rule sorted_ascii)
    then show ?strict
      using distinct by (simp add: strict_sorted_iff)
  }
  {
    assume ?gascii
    then have "list_all (list_all (\<lambda>c. c < CHR 0x80)) (getAllGuideTags guides)"
      using gset by (auto simp: list_all_iff)
    then show ?gsorted
      using gunits by (rule sorted_ascii)
    then show ?gstrict
      using gdistinct by (simp add: strict_sorted_iff)
  }
qed

text \<open>At rosters whose tags are ASCII text.\<close>

theorem getAllTags_sorted_distinct_witness:
  "list_all (\<lambda>s. list_all (list_all (\<lambda>c. c < CHR 0x80)) (SystemDesign.tags s)) [acme, acme_variant] \<and>
   sorted (getAllTags [acme, acme_variant]) \<and>
   sorted_wrt (<) (getAllTags [acme, acme_variant]) \<and>
   getAllTags [acme, acme_variant] = [''anvils'', ''caching'', ''real-time''] \<and>
   list_all (\<lambda>g. list_all (list_all (\<lambda>c. c < CHR 0x80)) (FeatureGuide.tags g)) [sample_guide] \<and>
   sorted (getAllGuideTags [sample_guide]) \<and>
   sorted_wrt (<) (getAllGuideTags [sample_guide]) \<and>
   getAllGuideTags [sample_guide] = [''caching'', ''real-time'']"
proof -
  have ascii: "list_all (\<lambda>s. list_all (list_all (\<lambda>c. c < CHR 0x80)) (SystemDesign.tags s)) [acme, acme_variant]"
    "list_all (\<lambda>g. list_all (list_all (\<lambda>c. c < CHR 0x80)) (FeatureGuide.tags g)) [sample_guide]"
    by (simp_all add: acme_def acme_variant_def sample_guide_def)
  have tags: "getAllTags [acme, acme_variant] = [''anvils'', ''caching'', ''real-time'']"
    "getAllGuideTags [sample_guide] = [''caching'', ''real-time'']"
    by (simp_all add: getAllTags_def getAllGuideTags_def sort_js_def new_Set_def Set_add_def
        units_defs acme_def acme_variant_def sample_guide_def)
  have "sorted (getAllTags [acme, acme_variant]) \<and> sorted_wrt (<) (getAllTags [acme, acme_variant])"
    using getAllTags_sorted_distinct [where systems = "[acme, acme_variant]"] ascii(1) by blast
  moreover have "sorted (getAllGuideTags [sample_guide]) \<and> sorted_wrt (<) (getAllGuideTags [sample_guide])"
    using getAllTags_sorted_distinct [where guides = "[sample_guide]"] ascii(2) by blast
  ultimately show ?thesis
    using ascii tags by simp
qed


end
